theory Spec2Isabelle
  imports Complex_Main
begin

section \<open>Python values, errors and helpers\<close>

text \<open>
  The vector stores take dynamically typed input: filters are nested dictionaries, result
  items are dictionaries, ids and metadata values are arbitrary objects. A dictionary is
  an association list in insertion order, with string keys. Floats are only carried
  through by the functions below, never computed with. \<open>PUuid n\<close> is the
  object returned by the \<open>n\<close>-th call of \<open>uuid.uuid4()\<close>.
\<close>

datatype pyval =
    PNone
  | PBool bool
  | PInt int
  | PFloat real
  | PStr string
  | PUuid nat
  | PList "pyval list"
  | PTuple "pyval list"
  | PDict "(string \<times> pyval) list"

text \<open>The text of an error message is kept as a tag with the values it formats.\<close>

datatype message =
    EXPECTED_A_DICT
  | INVALID_FILTER_INPUT_EXPECTED_AND_OR string
  | EXPECTED_A_LIST
  | INVALID_FILTER_INPUT_EXPECTED_DICT
  | EXPECTED_A_FIELD_BUT_GOT string
  | GOT_AN_EMPTY_DICTIONARY
  | EXPECTED_A_FIELD_BUT_GOT_AN_OPERATOR string
  | INVALID_FIELD_NAME string
  | EXPECTED_A_SINGLE_KEY nat
  | INVALID_OPERATOR string
  | UNPACK_EXPECTED_2 nat
  | INVALID_BATCH_SIZE int
  | RANK_FILTER_NONE_FOR_FULL_TEXT_RANK
  | RANK_FILTER_NONE_FOR_HYBRID
  | NO_DOCUMENT_IDS_PROVIDED
  | DISTANCE_STRATEGY_NOT_SUPPORTED string

text \<open>
  The exceptions that the code raises or lets through. \<open>ValidationError\<close> is raised by
  \<open>Document(...)\<close> for a field of the wrong type, and \<open>Exception_from_DBAPIError\<close> is the
  \<open>Exception\<close> that the relational store raises in place of a \<open>DBAPIError\<close> of the database.
\<close>

datatype error =
    ValueError message
  | NotImplementedError
  | TypeError
  | KeyError string
  | IndexError
  | AttributeError
  | ValidationError
  | Exception_from_DBAPIError

text \<open>A list comprehension whose body may raise stops at the first exception.\<close>

fun sequence :: "(error + 'a) list \<Rightarrow> error + 'a list" where
  "sequence [] = Inr []"
| "sequence (Inl e # _) = Inl e"
| "sequence (Inr x # rs) = (case sequence rs of Inl e \<Rightarrow> Inl e | Inr xs \<Rightarrow> Inr (x # xs))"

text \<open>\<open>key.startswith("$")\<close>\<close>

fun startswith_dollar :: "string \<Rightarrow> bool" where
  "startswith_dollar [] = False"
| "startswith_dollar (c # _) = (c = CHR ''$'')"

text \<open>
  \<open>str.lower()\<close> and \<open>str.isidentifier()\<close>. ASCII characters are treated as Python
  treats them. Python decides every other character by the Unicode tables; here such a
  character is left as it is by \<open>lower\<close>, which the code only compares with ASCII
  constants, and counts as an identifier character, so that every name which Python takes
  for an identifier is one here.
\<close>

definition lower_char :: "char \<Rightarrow> char" where
  "lower_char c =
     (case map_of (zip ''ABCDEFGHIJKLMNOPQRSTUVWXYZ'' ''abcdefghijklmnopqrstuvwxyz'') c of
        Some d \<Rightarrow> d
      | None \<Rightarrow> c)"

definition lower :: "string \<Rightarrow> string" where
  "lower s = map lower_char s"

definition non_ascii :: "char \<Rightarrow> bool" where
  "non_ascii c \<longleftrightarrow> digit7 c"

definition id_start :: "char \<Rightarrow> bool" where
  "id_start c \<longleftrightarrow>
     c \<in> set ''abcdefghijklmnopqrstuvwxyzABCDEFGHIJKLMNOPQRSTUVWXYZ_'' \<or> non_ascii c"

definition id_continue :: "char \<Rightarrow> bool" where
  "id_continue c \<longleftrightarrow> id_start c \<or> c \<in> set ''0123456789''"

fun isidentifier :: "string \<Rightarrow> bool" where
  "isidentifier [] = False"
| "isidentifier (c # cs) = (id_start c \<and> list_all id_continue cs)"

text \<open>
  Iterating a value, as \<open>for val in v\<close> and \<open>low, high = v\<close> do: a string
  yields its characters, a dictionary its keys; \<open>None\<close> stands for the
  \<open>TypeError\<close> of a value that is not iterable.
\<close>

fun py_iter :: "pyval \<Rightarrow> pyval list option" where
  "py_iter (PStr s) = Some (map (\<lambda>c. PStr [c]) s)"
| "py_iter (PList xs) = Some xs"
| "py_iter (PTuple xs) = Some xs"
| "py_iter (PDict kvs) = Some (map (\<lambda>kv. PStr (fst kv)) kvs)"
| "py_iter _ = None"

text \<open>\<open>isinstance(v, str)\<close> and \<open>isinstance(v, (str, int, float))\<close>; \<open>bool\<close> is a
  subclass of \<open>int\<close>.\<close>

fun is_str :: "pyval \<Rightarrow> bool" where
  "is_str (PStr _) = True"
| "is_str _ = False"

fun is_str_int_float :: "pyval \<Rightarrow> bool" where
  "is_str_int_float (PStr _) = True"
| "is_str_int_float (PInt _) = True"
| "is_str_int_float (PBool _) = True"
| "is_str_int_float (PFloat _) = True"
| "is_str_int_float _ = False"

section \<open>The relational store: filter clauses\<close>

text \<open>
  The SQLAlchemy expression that the filter compiler builds. A Python object handed to a
  SQLAlchemy operator or function as an operand becomes a bound parameter
  (\<open>BindParam\<close>); \<open>Raw v\<close> is the object itself.
  Statement text written by the program is a \<open>TextClause\<close> with its parameters, and a
  \<open>bindparam(..., literal_execute=True)\<close> is rendered into the statement when it is
  executed (\<open>LiteralExecute\<close>). \<open>NoneClause\<close> is Python's \<open>None\<close> passed where a
  clause is expected.
\<close>

datatype binop = Eq | Ne | Lt | Le | Gt | Ge

datatype bound = Raw pyval | Str pyval | Json pyval

text \<open>\<open>str(v)\<close>: a string is its own text; the text of any other value is kept symbolic.
  \<open>Json v\<close> is the text \<open>json.dumps(v)\<close>.\<close>

fun py_str :: "pyval \<Rightarrow> bound" where
  "py_str (PStr s) = Raw (PStr s)"
| "py_str v = Str v"

datatype sqlexpr =
    Column string
  | BindParam bound
  | LiteralExecute string bound
  | TextClause string "sqlexpr list"
  | JSON_VALUE sqlexpr sqlexpr
  | Cast_Numeric_10_2 sqlexpr
  | Binary binop sqlexpr sqlexpr
  | In_clause sqlexpr "bound list"
  | Like sqlexpr sqlexpr
  | And_clause "sqlexpr list"
  | Or_clause "sqlexpr list"
  | Label string sqlexpr
  | NoneClause

definition COMPARISONS_TO_NATIVE :: "(string \<times> binop) list" where
  "COMPARISONS_TO_NATIVE = [(''$eq'', Eq), (''$ne'', Ne)]"

definition NUMERIC_OPERATORS :: "(string \<times> binop) list" where
  "NUMERIC_OPERATORS = [(''$lt'', Lt), (''$lte'', Le), (''$gt'', Gt), (''$gte'', Ge)]"

definition SPECIAL_CASED_OPERATORS :: "string list" where
  "SPECIAL_CASED_OPERATORS = [''$in'', ''$nin'', ''$like'']"

definition BETWEEN_OPERATOR :: "string list" where
  "BETWEEN_OPERATOR = [''$between'']"

definition LOGICAL_OPERATORS :: "string list" where
  "LOGICAL_OPERATORS = [''$and'', ''$or'']"

definition SUPPORTED_OPERATORS :: "string list" where
  "SUPPORTED_OPERATORS =
     map fst COMPARISONS_TO_NATIVE @ map fst NUMERIC_OPERATORS @ SPECIAL_CASED_OPERATORS
       @ BETWEEN_OPERATOR @ LOGICAL_OPERATORS"

text \<open>\<open>func.JSON_VALUE(self._embedding_store.content_metadata, f"$.{field}")\<close>\<close>

definition json_value :: "string \<Rightarrow> sqlexpr" where
  "json_value field =
     JSON_VALUE (Column ''content_metadata'') (BindParam (Raw (PStr (''$.'' @ field))))"

text \<open>
  The first part of \<open>_handle_field_filter\<close>: a dictionary value must have exactly one
  key, a supported operator; any other value is an equality filter.
\<close>

fun operator_and_value :: "pyval \<Rightarrow> error + string \<times> pyval" where
  "operator_and_value (PDict [(operator, filter_value)]) =
     (if operator \<notin> set SUPPORTED_OPERATORS then Inl (ValueError (INVALID_OPERATOR operator))
      else Inr (operator, filter_value))"
| "operator_and_value (PDict kvs) = Inl (ValueError (EXPECTED_A_SINGLE_KEY (length kvs)))"
| "operator_and_value v = Inr (''$eq'', v)"

text \<open>\<open>low, high = filter_value\<close>\<close>

definition unpack2 :: "pyval \<Rightarrow> error + pyval \<times> pyval" where
  "unpack2 v =
     (case py_iter v of
        None \<Rightarrow> Inl TypeError
      | Some [low, high] \<Rightarrow> Inr (low, high)
      | Some xs \<Rightarrow> Inl (ValueError (UNPACK_EXPECTED_2 (length xs))))"

text \<open>
  The branches of \<open>_handle_field_filter\<close> on the operator, in the source's order. The
  operand of a comparison is handed to the SQLAlchemy operator as the source does; that the
  library itself refuses \<open>None\<close>, \<open>True\<close> and \<open>False\<close> as the operand of an order
  comparison is not modelled, so the model accepts every filter that the code accepts.
  For \<open>$nin\<close> the code calls \<open>queried_field.nin_\<close>, a method that a SQLAlchemy expression
  does not have: once the elements have been checked, the call raises \<open>AttributeError\<close>.
\<close>

definition handle_operator :: "string \<Rightarrow> string \<Rightarrow> pyval \<Rightarrow> error + sqlexpr" where
  "handle_operator field operator filter_value =
     (case map_of COMPARISONS_TO_NATIVE operator of
        Some operation \<Rightarrow>
          Inr (Binary operation (json_value field) (BindParam (py_str filter_value)))
      | None \<Rightarrow>
     (case map_of NUMERIC_OPERATORS operator of
        Some operation \<Rightarrow>
          (if \<not> is_str filter_value
           then Inr (Binary operation (Cast_Numeric_10_2 (json_value field))
                       (BindParam (Raw filter_value)))
           else Inr (Binary operation (json_value field) (BindParam (Raw filter_value))))
      | None \<Rightarrow>
     (if operator \<in> set BETWEEN_OPERATOR then
        (case unpack2 filter_value of
           Inl e \<Rightarrow> Inl e
         | Inr (low, high) \<Rightarrow>
             (if \<not> is_str filter_value
              then Inr (And_clause [Binary Ge (Cast_Numeric_10_2 (json_value field))
                                 (BindParam (Raw low)),
                               Binary Le (Cast_Numeric_10_2 (json_value field))
                                 (BindParam (Raw high))])
              else Inr (And_clause [Binary Ge (json_value field) (BindParam (Raw low)),
                               Binary Le (json_value field) (BindParam (Raw high))])))
      else if operator \<in> set SPECIAL_CASED_OPERATORS then
        (if operator \<in> {''$in'', ''$nin''} then
           (case py_iter filter_value of
              None \<Rightarrow> Inl TypeError
            | Some vals \<Rightarrow>
                (if \<not> list_all is_str_int_float vals then Inl NotImplementedError
                 else if operator = ''$in'' then Inr (In_clause (json_value field) (map py_str vals))
                 else Inl AttributeError))
         else if operator = ''$like'' then
           Inr (Like (json_value field) (BindParam (py_str filter_value)))
         else Inl NotImplementedError)
      else Inl NotImplementedError)))"

definition handle_field_filter :: "string \<Rightarrow> pyval \<Rightarrow> error + sqlexpr" where
  "handle_field_filter field v =
     (if startswith_dollar field
      then Inl (ValueError (EXPECTED_A_FIELD_BUT_GOT_AN_OPERATOR field))
      else if \<not> isidentifier field then Inl (ValueError (INVALID_FIELD_NAME field))
      else (case operator_and_value v of
              Inl e \<Rightarrow> Inl e
            | Inr (operator, filter_value) \<Rightarrow> handle_operator field operator filter_value))"

text \<open>
  \<open>sqlalchemy.and_(*clauses)\<close> and \<open>sqlalchemy.or_(*clauses)\<close> over the results of the
  recursive calls, each of which is a clause or \<open>None\<close>.
\<close>

definition clause_arg :: "sqlexpr option \<Rightarrow> sqlexpr" where
  "clause_arg c = (case c of None \<Rightarrow> NoneClause | Some e \<Rightarrow> e)"

text \<open>The three-way test on \<open>len(and_)\<close> that ends each branch of \<open>_create_filter_clause\<close>.\<close>

definition combine :: "(sqlexpr list \<Rightarrow> sqlexpr) \<Rightarrow> sqlexpr option list \<Rightarrow> error + sqlexpr option" where
  "combine connective clauses =
     (if length clauses > 1 then Inr (Some (connective (map clause_arg clauses)))
      else if length clauses = 1 then Inr (hd clauses)
      else Inl (ValueError INVALID_FILTER_INPUT_EXPECTED_DICT))"

fun create_filter_clause :: "pyval \<Rightarrow> error + sqlexpr option" where
  "create_filter_clause PNone = Inr None"
| "create_filter_clause (PDict []) = Inl (ValueError GOT_AN_EMPTY_DICTIONARY)"
| "create_filter_clause (PDict [(key, v)]) =
     (if startswith_dollar key then
        (if lower key \<notin> set LOGICAL_OPERATORS
         then Inl (ValueError (INVALID_FILTER_INPUT_EXPECTED_AND_OR key))
         else (case v of
                 PList els \<Rightarrow>
                   (if lower key = ''$and'' then
                      (case sequence (map create_filter_clause els) of
                         Inl e \<Rightarrow> Inl e
                       | Inr ands \<Rightarrow> combine And_clause ands)
                    else if lower key = ''$or'' then
                      (case sequence (map create_filter_clause els) of
                         Inl e \<Rightarrow> Inl e
                       | Inr ors \<Rightarrow> combine Or_clause ors)
                    else Inr None)
               | _ \<Rightarrow> Inl (ValueError EXPECTED_A_LIST)))
      else map_sum id Some (handle_field_filter key v))"
| "create_filter_clause (PDict (kv # kv' # kvs)) =
     (case filter startswith_dollar (map fst (kv # kv' # kvs)) of
        key # _ \<Rightarrow> Inl (ValueError (EXPECTED_A_FIELD_BUT_GOT key))
      | [] \<Rightarrow>
          (case sequence (map (\<lambda>(k, v). handle_field_filter k v) (kv # kv' # kvs)) of
             Inl e \<Rightarrow> Inl e
           | Inr ands \<Rightarrow> combine And_clause (map Some ands)))"
| "create_filter_clause _ = Inl (ValueError EXPECTED_A_DICT)"

text \<open>
  The statement that an expression is compiled to, as the docstring of
  \<open>_create_filter_clause\<close> shows it
  (\<open>JSON_VALUE(table.content_metadata, :JSON_VALUE_1) = :JSON_VALUE_2\<close>): a sequence of
  pieces of statement text (\<open>Sql\<close>), of placeholders whose values are sent apart from the
  text as bound parameters (\<open>Param\<close>), and of values written into the text itself
  (\<open>Inline\<close>), which is what a \<open>literal_execute\<close> parameter is. The text of a
  \<open>TextClause\<close>, the name of a column and the name of a label are statement text as the
  program wrote them.
\<close>

datatype token = Sql string | Param bound | Inline bound

fun binop_text :: "binop \<Rightarrow> string" where
  "binop_text Eq = '' = ''"
| "binop_text Ne = '' != ''"
| "binop_text Lt = '' < ''"
| "binop_text Le = '' <= ''"
| "binop_text Gt = '' > ''"
| "binop_text Ge = '' >= ''"

fun separated :: "token \<Rightarrow> token list list \<Rightarrow> token list" where
  "separated sep [] = []"
| "separated sep [ts] = ts"
| "separated sep (ts # ts' # rest) = ts @ sep # separated sep (ts' # rest)"

fun render :: "sqlexpr \<Rightarrow> token list" where
  "render (Column name) = [Sql name]"
| "render (BindParam v) = [Param v]"
| "render (LiteralExecute _ v) = [Inline v]"
| "render (TextClause written ps) = Sql written # concat (map render ps)"
| "render (JSON_VALUE a b) = Sql ''JSON_VALUE('' # render a @ Sql '', '' # render b @ [Sql '')'']"
| "render (Cast_Numeric_10_2 a) = Sql ''CAST('' # render a @ [Sql '' AS NUMERIC(10, 2))'']"
| "render (Binary operation a b) = render a @ Sql (binop_text operation) # render b"
| "render (In_clause a vs) = render a @ Sql '' IN ('' # map Param vs @ [Sql '')'']"
| "render (Like a b) = render a @ Sql '' LIKE '' # render b"
| "render (And_clause es) = separated (Sql '' AND '') (map render es)"
| "render (Or_clause es) = separated (Sql '' OR '') (map render es)"
| "render (Label name a) = render a @ [Sql '' AS '', Sql name]"
| "render NoneClause = [Sql ''NULL'']"

text \<open>The bound parameters of a statement, in order.\<close>

fun bound_parameters :: "token list \<Rightarrow> bound list" where
  "bound_parameters [] = []"
| "bound_parameters (Param v # ts) = v # bound_parameters ts"
| "bound_parameters (_ # ts) = bound_parameters ts"

text \<open>
  The statement text that a filter clause may consist of: the metadata column, the
  function, the cast, the comparison operators and the connectives. A token is safe when
  it is one of these pieces of text or a placeholder; a value written into the text, by a
  \<open>literal_execute\<close> parameter or inside text that the program assembled, is not.
\<close>

definition SQL_FRAGMENTS :: "string list" where
  "SQL_FRAGMENTS =
     [''content_metadata'', ''JSON_VALUE('', '', '', '')'', ''CAST('', '' AS NUMERIC(10, 2))'',
      '' = '', '' != '', '' < '', '' <= '', '' > '', '' >= '', '' IN ('', '' LIKE '',
      '' AND '', '' OR '', ''NULL'']"

fun fixed_or_bound :: "token \<Rightarrow> bool" where
  "fixed_or_bound (Sql written) = (written \<in> set SQL_FRAGMENTS)"
| "fixed_or_bound (Param _) = True"
| "fixed_or_bound (Inline _) = False"

text \<open>
  The values that a filter compares fields against, read off the filter as the
  specification describes it: the value of an equality, inequality or pattern predicate
  as text, the value of an order predicate, the two bounds of a range predicate, the
  elements of a membership predicate as text; a logical node has the values of its
  children.
\<close>

definition spec_operands :: "string \<Rightarrow> pyval \<Rightarrow> bound list" where
  "spec_operands operator filter_value =
     (if operator \<in> {''$eq'', ''$ne'', ''$like''} then [py_str filter_value]
      else if operator \<in> {''$lt'', ''$lte'', ''$gt'', ''$gte''} then [Raw filter_value]
      else if operator = ''$between''
        then (case py_iter filter_value of None \<Rightarrow> [] | Some vs \<Rightarrow> map Raw vs)
      else if operator \<in> {''$in'', ''$nin''}
        then (case py_iter filter_value of None \<Rightarrow> [] | Some vs \<Rightarrow> map py_str vs)
      else [])"

fun spec_field_values :: "pyval \<Rightarrow> bound list" where
  "spec_field_values (PDict [(operator, filter_value)]) = spec_operands operator filter_value"
| "spec_field_values (PDict _) = []"
| "spec_field_values v = [py_str v]"

fun spec_values :: "pyval \<Rightarrow> bound list" where
  "spec_values (PDict [(key, v)]) =
     (if startswith_dollar key
      then (case v of PList els \<Rightarrow> concat (map spec_values els) | _ \<Rightarrow> [])
      else spec_field_values v)"
| "spec_values (PDict kvs) = concat (map (\<lambda>(k, v). spec_field_values v) kvs)"
| "spec_values _ = []"

text \<open>The induction invariant of the filter compiler: the text fixed, the values bound.\<close>

definition bound_ok :: "bound list \<Rightarrow> sqlexpr option \<Rightarrow> bool" where
  "bound_ok vs c \<longleftrightarrow>
     list_all fixed_or_bound (render (clause_arg c))
     \<and> set vs \<subseteq> set (bound_parameters (render (clause_arg c)))"

section \<open>The relational store: search, result mapping, reranking\<close>

definition DISTANCE :: string where
  "DISTANCE = ''distance''"

definition DISTANCE_STRATEGY :: string where
  "DISTANCE_STRATEGY = ''distancestrategy''"

definition EMBEDDING :: string where
  "EMBEDDING = ''embedding''"

definition EMBEDDING_LENGTH :: string where
  "EMBEDDING_LENGTH = ''embedding_length''"

definition VECTOR_DISTANCE_QUERY :: string where
  "VECTOR_DISTANCE_QUERY =
     [CHR 0x0A] @ ''VECTOR_DISTANCE(:distancestrategy,'' @ [CHR 0x0A]
       @ ''cast (:embedding as vector(:embedding_length)), embeddings)''"

text \<open>
  The attribute \<open>_distance_strategy\<close> holds a member of the enumeration or any other
  object, and the property \<open>distance_strategy\<close> reads it: a member gives its value, a
  string is matched in lower case against the three values, any other string is a
  \<open>ValueError\<close>, and \<open>str.lower\<close> of an object that is not a string is a \<open>TypeError\<close>.
\<close>

datatype DistanceStrategy = EUCLIDEAN | COSINE | DOT

fun strategy_value :: "DistanceStrategy \<Rightarrow> string" where
  "strategy_value EUCLIDEAN = ''euclidean''"
| "strategy_value COSINE = ''cosine''"
| "strategy_value DOT = ''dot''"

datatype strategy_attribute = Member DistanceStrategy | Object pyval

fun distance_strategy :: "strategy_attribute \<Rightarrow> error + string" where
  "distance_strategy (Member m) = Inr (strategy_value m)"
| "distance_strategy (Object (PStr s)) =
     (let distance_strategy_lower = lower s in
      if distance_strategy_lower = strategy_value EUCLIDEAN then Inr (strategy_value EUCLIDEAN)
      else if distance_strategy_lower = strategy_value COSINE then Inr (strategy_value COSINE)
      else if distance_strategy_lower = strategy_value DOT then Inr (strategy_value DOT)
      else Inl (ValueError (DISTANCE_STRATEGY_NOT_SUPPORTED s)))"
| "distance_strategy (Object _) = Inl TypeError"

text \<open>
  The statement that \<open>_search_store\<close> hands to the session: the selected columns, the
  filter clauses, the ordering and the limit \<open>k\<close>, which is passed on as it comes. The
  filter is compiled first, the distance strategy is read next.
\<close>

record select_stmt =
  columns :: "sqlexpr list"
  filter_by :: "sqlexpr list"
  order_by :: sqlexpr
  limit :: int

definition distance_subquery :: "string \<Rightarrow> int \<Rightarrow> real list \<Rightarrow> sqlexpr" where
  "distance_subquery strategy embedding_length embedding =
     Label DISTANCE
       (TextClause VECTOR_DISTANCE_QUERY
          [LiteralExecute DISTANCE_STRATEGY (Raw (PStr strategy)),
           LiteralExecute EMBEDDING (Json (PList (map PFloat embedding))),
           LiteralExecute EMBEDDING_LENGTH (Raw (PInt embedding_length))])"

definition search_store_query ::
  "strategy_attribute \<Rightarrow> int \<Rightarrow> real list \<Rightarrow> int \<Rightarrow> pyval \<Rightarrow> bool \<Rightarrow> error + select_stmt" where
  "search_store_query strategy_attr embedding_length embedding k filters marginal_relevance =
     (case create_filter_clause filters of
        Inl e \<Rightarrow> Inl e
      | Inr filter_clauses \<Rightarrow>
          (case distance_strategy strategy_attr of
             Inl e \<Rightarrow> Inl e
           | Inr strategy \<Rightarrow>
               (let filter_by = (case filter_clauses of None \<Rightarrow> [] | Some c \<Rightarrow> [c]);
                    subquery = distance_subquery strategy embedding_length embedding
                in Inr \<lparr>columns =
                           (if marginal_relevance
                            then [TextClause ''cast (embeddings as NVARCHAR(MAX))'' [], subquery,
                                  Column ''EmbeddingStore'']
                            else [Column ''EmbeddingStore'', subquery]),
                         filter_by = filter_by,
                         order_by = TextClause DISTANCE [],
                         limit = k\<rparr>)))"

text \<open>
  A row of the table and a row of a search result. The id is stored as text, under a
  unique index; the metadata column holds any JSON value or is null (\<open>PNone\<close>); the
  content is never null. \<open>embeddings_json\<close> is what \<open>json.loads(result[0])\<close> reads from a
  row of a marginal-relevance search.
\<close>

record 'e embedding_store =
  custom_id :: string
  content_metadata :: pyval
  content :: string
  embeddings :: 'e

record 'e result_row =
  embeddings_json :: 'e
  distance :: "pyval option"
  EmbeddingStore :: "'e embedding_store option"

record document =
  page_content :: pyval
  metadata :: pyval

text \<open>
  \<open>Document(page_content=..., metadata=...)\<close> validates its fields: the content has to
  be a string and the metadata a dictionary.
\<close>

fun is_dict :: "pyval \<Rightarrow> bool" where
  "is_dict (PDict _) = True"
| "is_dict _ = False"

definition Document :: "pyval \<Rightarrow> pyval \<Rightarrow> error + document" where
  "Document content_value metadata_value =
     (if is_str content_value \<and> is_dict metadata_value
      then Inr \<lparr>page_content = content_value, metadata = metadata_value\<rparr>
      else Inl ValidationError)"

definition INVALID_INPUT_ERROR_MESSAGE :: string where
  "INVALID_INPUT_ERROR_MESSAGE = ''Input is not valid.''"

text \<open>
  \<open>_docs_and_scores_from_result\<close>, with the messages it hands to \<open>logging.error\<close>: the rows are
  taken in order; a row that is \<open>None\<close>, or whose record or distance is \<open>None\<close>, is logged
  and left out; an exception of \<open>Document\<close> ends the call.
\<close>

fun docs_and_scores_loop ::
  "'e result_row option list \<Rightarrow> (document \<times> pyval) list \<Rightarrow> string list
     \<Rightarrow> error + (document \<times> pyval) list \<times> string list" where
  "docs_and_scores_loop [] docs_and_scores logged = Inr (docs_and_scores, logged)"
| "docs_and_scores_loop (None # results) docs_and_scores logged =
     docs_and_scores_loop results docs_and_scores (logged @ [INVALID_INPUT_ERROR_MESSAGE])"
| "docs_and_scores_loop (Some r # results) docs_and_scores logged =
     (case (EmbeddingStore r, distance r) of
        (Some es, Some d) \<Rightarrow>
          (case Document (PStr (content es)) (content_metadata es) of
             Inl e \<Rightarrow> Inl e
           | Inr doc \<Rightarrow> docs_and_scores_loop results (docs_and_scores @ [(doc, d)]) logged)
      | _ \<Rightarrow> docs_and_scores_loop results docs_and_scores (logged @ [INVALID_INPUT_ERROR_MESSAGE]))"

definition docs_and_scores_from_result ::
  "'e result_row option list \<Rightarrow> error + (document \<times> pyval) list \<times> string list" where
  "docs_and_scores_from_result results = docs_and_scores_loop results [] []"


text \<open>\<open>_docs_from_result\<close>; a \<open>Document\<close> built above is never \<open>None\<close>.\<close>

definition docs_from_result :: "(document \<times> pyval) list \<Rightarrow> document list" where
  "docs_from_result results = map fst results"

text \<open>
  \<open>max_marginal_relevance_search_by_vector\<close> of the relational store, from the rows of
  the search on. The reranker \<open>maximal_marginal_relevance\<close> is a library function: \<open>mmr\<close>
  stands for it with the query, \<open>lambda_mult\<close> and \<open>k\<close> fixed, and returns indices
  into the list of embeddings in the order of selection.
\<close>

definition row_embedding :: "'e result_row option \<Rightarrow> error + 'e" where
  "row_embedding result = (case result of None \<Rightarrow> Inl TypeError | Some r \<Rightarrow> Inr (embeddings_json r))"

definition sqlserver_mmr ::
  "('e list \<Rightarrow> nat list) \<Rightarrow> 'e result_row option list \<Rightarrow> error + document list" where
  "sqlserver_mmr mmr results =
     (case sequence (map row_embedding results) of
        Inl e \<Rightarrow> Inl e
      | Inr embedding_list \<Rightarrow>
          (let mmr_selects = mmr embedding_list in
           case docs_and_scores_from_result results of
             Inl e \<Rightarrow> Inl e
           | Inr (docs_and_scores, logged) \<Rightarrow>
               (let results_as_docs = docs_from_result docs_and_scores
                in Inr (map snd (filter (\<lambda>(idx, v). idx \<in> set mmr_selects)
                                   (enumerate 0 results_as_docs))))))"

section \<open>The relational store: ingest and delete\<close>

text \<open>
  The state that ingest and delete act on: the rows of the table, the number of UUIDs
  drawn from \<open>uuid.uuid4()\<close> so far, and the batches handed to the embedding
  capability, one entry per call of \<open>embed_documents\<close>.
\<close>

record 'e store =
  rows :: "'e embedding_store list"
  uuids_drawn :: nat
  embed_calls :: "string list list"



definition DEFAULT_BATCH_SIZE :: int where
  "DEFAULT_BATCH_SIZE = 100"



text \<open>\<open>d.get(key, default)\<close> on a dictionary.\<close>

definition dict_get :: "(string \<times> pyval) list \<Rightarrow> string \<Rightarrow> pyval \<Rightarrow> pyval" where
  "dict_get d key dflt = (case map_of d key of None \<Rightarrow> dflt | Some v \<Rightarrow> v)"










text \<open>
  \<open>_delete_texts_by_ids\<close>: the number of rows deleted and the table afterwards. Without
  ids every row is deleted; with ids, the rows whose stored \<open>custom_id\<close> is one of them.
  The database is taken to execute the statement.
\<close>

definition id_matches :: "string list \<Rightarrow> 'e embedding_store \<Rightarrow> bool" where
  "id_matches ids r \<longleftrightarrow> custom_id r \<in> set ids"

definition delete_texts_by_ids :: "'e store \<Rightarrow> string list option \<Rightarrow> nat \<times> 'e store" where
  "delete_texts_by_ids st ids =
     (case ids of
        None \<Rightarrow> (length (rows st), st\<lparr>rows := []\<rparr>)
      | Some given \<Rightarrow>
          (length (filter (id_matches given) (rows st)),
           st\<lparr>rows := filter (\<lambda>r. \<not> id_matches given r) (rows st)\<rparr>))"

text \<open>\<open>delete\<close> of the relational store; the result is a Python value, \<open>True\<close> or \<open>False\<close>.\<close>

definition delete :: "'e store \<Rightarrow> string list option \<Rightarrow> pyval \<times> 'e store" where
  "delete st ids =
     (if ids \<noteq> None \<and> length (the ids) = 0 then (PBool False, st)
      else (let (result, st') = delete_texts_by_ids st ids
            in if result = 0 then (PBool False, st') else (PBool True, st')))"

section \<open>The document store: query construction\<close>

text \<open>
  The attributes of the document store that the functions below read. A rank filter of a
  full-text search is a dictionary of strings, read under the keys \<open>search_field\<close> and
  \<open>search_text\<close>; a missing key is a \<open>KeyError\<close>.
\<close>

record cosmos =
  table_alias :: string
  text_field :: string
  embedding_field :: string
  metadata_key :: string

type_synonym rank_filter = "(string \<times> string) list"

definition rank_item :: "rank_filter \<Rightarrow> string \<Rightarrow> error + string" where
  "rank_item search_item key =
     (case map_of search_item key of None \<Rightarrow> Inl (KeyError key) | Some v \<Rightarrow> Inr v)"

text \<open>\<open>sep.join(strings)\<close>, \<open>str(k)\<close> of an integer and \<open>text.split()\<close>.\<close>

fun join :: "string \<Rightarrow> string list \<Rightarrow> string" where
  "join sep [] = []"
| "join sep [x] = x"
| "join sep (x # y # ys) = x @ sep @ join sep (y # ys)"

definition digit_char :: "nat \<Rightarrow> char" where
  "digit_char d = ''0123456789'' ! d"

fun str_nat :: "nat \<Rightarrow> string" where
  "str_nat n = (if n < 10 then [digit_char n] else str_nat (n div 10) @ [digit_char (n mod 10)])"

definition str_int :: "int \<Rightarrow> string" where
  "str_int k = (if k < 0 then ''-'' @ str_nat (nat (- k)) else str_nat (nat k))"

definition is_space :: "char \<Rightarrow> bool" where
  "is_space c \<longleftrightarrow>
     c \<in> set [CHR 0x09, CHR 0x0A, CHR 0x0B, CHR 0x0C, CHR 0x0D, CHR 0x1C, CHR 0x1D, CHR 0x1E,
              CHR 0x1F, CHR '' '', CHR 0x85, CHR 0xA0]"

fun split_from :: "string \<Rightarrow> string \<Rightarrow> string list" where
  "split_from word [] = (if word = [] then [] else [word])"
| "split_from word (c # cs) =
     (if is_space c then (if word = [] then split_from [] cs else word # split_from [] cs)
      else split_from (word @ [c]) cs)"

definition split :: "string \<Rightarrow> string list" where
  "split s = split_from [] s"

text \<open>The truth value of an optional string or mapping: \<open>None\<close> and the empty one are false.\<close>

definition truthy :: "'a list option \<Rightarrow> bool" where
  "truthy x \<longleftrightarrow> (case x of None \<Rightarrow> False | Some v \<Rightarrow> v \<noteq> [])"

text \<open>
  \<open>FullTextScore(table.field, ['term', ...])\<close> for one rank filter, as both ranking
  branches of \<open>_construct_query\<close> write it: the field is read first, the text next.
\<close>

definition quoted_terms :: "string \<Rightarrow> string" where
  "quoted_terms text_value =
     join '', '' (map (\<lambda>term. [CHR 0x27] @ term @ [CHR 0x27]) (split text_value))"

definition rank_component :: "string \<Rightarrow> rank_filter \<Rightarrow> error + string" where
  "rank_component table search_item =
     (case rank_item search_item ''search_field'' of
        Inl e \<Rightarrow> Inl e
      | Inr field \<Rightarrow>
          (case rank_item search_item ''search_text'' of
             Inl e \<Rightarrow> Inl e
           | Inr text_value \<Rightarrow>
               Inr (''FullTextScore('' @ table @ ''.'' @ field @ '', [''
                      @ quoted_terms text_value @ ''])'')))"

text \<open>\<open>table.field as field\<close> for one rank filter, in the projection.\<close>

definition rank_projection :: "string \<Rightarrow> rank_filter \<Rightarrow> error + string" where
  "rank_projection table search_item =
     (case rank_item search_item ''search_field'' of
        Inl e \<Rightarrow> Inl e
      | Inr field \<Rightarrow> Inr (table @ ''.'' @ field @ '' as '' @ field))"

text \<open>
  \<open>_generate_projection_fields\<close>. \<open>fmt\<close> is the text that an f-string gives the
  optional list of floats \<open>embeddings\<close>. In the ranking branch without a projection
  mapping or rank filter, only the first of the two strings is assigned.
\<close>

definition generate_projection_fields ::
  "(real list option \<Rightarrow> string) \<Rightarrow> cosmos \<Rightarrow> (string \<times> string) list option \<Rightarrow> string
     \<Rightarrow> real list option \<Rightarrow> rank_filter list option \<Rightarrow> bool \<Rightarrow> error + string" where
  "generate_projection_fields fmt self projection_mapping search_type embs
       full_text_rank_filter with_embedding =
     (let table = table_alias self in
      if search_type = ''full_text_ranking'' \<or> search_type = ''hybrid'' then
        (case
           (if truthy projection_mapping then
              Inr (join '', '' (map (\<lambda>(key, alias). table @ ''.'' @ key @ '' as '' @ alias)
                                    (the projection_mapping)))
            else if truthy full_text_rank_filter then
              (case sequence (map (rank_projection table) (the full_text_rank_filter)) of
                 Inl e \<Rightarrow> Inl e
               | Inr projected \<Rightarrow> Inr (table @ ''.id, '' @ join '', '' projected))
            else Inr (table @ ''.id, '' @ table @ ''.'' @ text_field self @ '' ''))
         of
           Inl e \<Rightarrow> Inl e
         | Inr projection \<Rightarrow>
             (if search_type = ''hybrid'' then
                Inr ((if with_embedding
                      then projection @ '', '' @ table @ ''.'' @ embedding_field self
                             @ '' as embedding''
                      else projection)
                     @ '', VectorDistance('' @ table @ ''.'' @ embedding_field self @ '', ''
                     @ fmt embs @ '') as SimilarityScore'')
              else Inr projection))
      else
        (case
           (if truthy projection_mapping then
              Inr (join '', '' (map (\<lambda>(key, alias). table @ ''[@'' @ key @ ''] as '' @ alias)
                                    (the projection_mapping)))
            else if truthy full_text_rank_filter then
              (case sequence (map (rank_projection table) (the full_text_rank_filter)) of
                 Inl e \<Rightarrow> Inl e
               | Inr projected \<Rightarrow> Inr (table @ ''.id'' @ join '', '' projected))
            else Inr (table @ ''.id, '' @ table @ ''[@textKey] as text, '' @ table
                        @ ''[@metadataKey] as metadata''))
         of
           Inl e \<Rightarrow> Inl e
         | Inr projection \<Rightarrow>
             (if search_type = ''vector'' then
                Inr ((if with_embedding
                      then projection @ '', '' @ table @ ''[@embeddingKey] as embedding''
                      else projection)
                     @ '', VectorDistance('' @ table @ ''[@embeddingKey], ''
                     @ ''@embeddings) as SimilarityScore'')
              else Inr projection)))"

text \<open>\<open>_build_parameters\<close>: the named parameters; \<open>k\<close> is bound to \<open>@limit\<close> as it comes.\<close>

definition build_parameters ::
  "cosmos \<Rightarrow> int \<Rightarrow> string \<Rightarrow> real list option \<Rightarrow> (string \<times> string) list option
     \<Rightarrow> (string \<times> pyval) list" where
  "build_parameters self k search_type embs projection_mapping =
     [(''@limit'', PInt k)]
     @ (if truthy projection_mapping
        then map (\<lambda>(key, alias). (''@'' @ key, PStr key)) (the projection_mapping)
        else [(''@textKey'', PStr (text_field self)), (''@metadataKey'', PStr (metadata_key self))])
     @ (if search_type = ''vector''
        then [(''@embeddingKey'', PStr (embedding_field self)),
              (''@embeddings'', (case embs of None \<Rightarrow> PNone | Some v \<Rightarrow> PList (map PFloat v)))]
        else [])"

text \<open>
  The step of \<open>_construct_query\<close> that adds the ordering to the query built so far, by
  search type. With more than one rank filter, full-text ranking assigns the ordering
  clause to the whole query instead of appending it.
\<close>

definition add_ordering ::
  "(real list option \<Rightarrow> string) \<Rightarrow> cosmos \<Rightarrow> string \<Rightarrow> real list option
     \<Rightarrow> rank_filter list option \<Rightarrow> string \<Rightarrow> error + string" where
  "add_ordering fmt self search_type embs full_text_rank_filter query =
     (let table = table_alias self in
      if search_type = ''full_text_ranking'' then
        (case full_text_rank_filter of
           None \<Rightarrow> Inl (ValueError RANK_FILTER_NONE_FOR_FULL_TEXT_RANK)
         | Some rank_filters \<Rightarrow>
             (if length rank_filters = 1 then
                (case rank_item (rank_filters ! 0) ''search_field'' of
                   Inl e \<Rightarrow> Inl e
                 | Inr field \<Rightarrow>
                     (case rank_item (rank_filters ! 0) ''search_text'' of
                        Inl e \<Rightarrow> Inl e
                      | Inr text_value \<Rightarrow>
                          Inr (query @ '' ORDER BY RANK FullTextScore('' @ table @ ''.'' @ field
                                 @ '', '' @ [CHR 0x0A] @ replicate 16 CHR '' '' @ ''[''
                                 @ quoted_terms text_value @ ''])'')))
              else
                (case sequence (map (rank_component table) rank_filters) of
                   Inl e \<Rightarrow> Inl e
                 | Inr rank_components \<Rightarrow>
                     Inr ('' ORDER BY RANK RRF('' @ join '', '' rank_components @ '')''))))
      else if search_type = ''vector'' then
        Inr (query @ '' ORDER BY VectorDistance(c[@embeddingKey], @embeddings)'')
      else if search_type = ''hybrid'' then
        (case full_text_rank_filter of
           None \<Rightarrow> Inl (ValueError RANK_FILTER_NONE_FOR_HYBRID)
         | Some rank_filters \<Rightarrow>
             (case sequence (map (rank_component table) rank_filters) of
                Inl e \<Rightarrow> Inl e
              | Inr rank_components \<Rightarrow>
                  Inr (query @ '' ORDER BY RANK RRF('' @ join '', '' rank_components @ '', ''
                         @ [CHR 0x0A] @ replicate 12 CHR '' '' @ ''VectorDistance('' @ table
                         @ ''.'' @ embedding_field self @ '', '' @ fmt embs @ ''))'')))
      else Inr query)"

text \<open>
  \<open>_construct_query\<close>: the start of the query, the projection, the source and the
  condition, the ordering, the offset and limit clause, the parameters. No step looks at
  the value of \<open>k\<close>: it is written after \<open>TOP\<close> or bound to \<open>@limit\<close> as it comes.
\<close>

definition construct_query ::
  "(real list option \<Rightarrow> string) \<Rightarrow> cosmos \<Rightarrow> int \<Rightarrow> string \<Rightarrow> real list option
     \<Rightarrow> rank_filter list option \<Rightarrow> string option \<Rightarrow> (string \<times> string) list option \<Rightarrow> bool
     \<Rightarrow> string option \<Rightarrow> error + string \<times> (string \<times> pyval) list" where
  "construct_query fmt self k search_type embs full_text_rank_filter offset_limit
       projection_mapping with_embedding where_clause =
     (let table = table_alias self;
          query0 =
            (if search_type = ''full_text_ranking'' \<or> search_type = ''hybrid''
             then ''SELECT '' @ (if \<not> truthy offset_limit then ''TOP '' @ str_int k @ '' '' else [])
             else ''SELECT '' @ (if \<not> truthy offset_limit then ''TOP @limit '' else []))
      in case generate_projection_fields fmt self projection_mapping search_type embs
                full_text_rank_filter with_embedding of
           Inl e \<Rightarrow> Inl e
         | Inr projection \<Rightarrow>
             (let query1 = query0 @ projection;
                  query2 = query1 @ '' FROM '' @ table @ '' '';
                  query3 = (if truthy where_clause then query2 @ ''WHERE '' @ the where_clause
                            else query2)
              in case add_ordering fmt self search_type embs full_text_rank_filter query3 of
                   Inl e \<Rightarrow> Inl e
                 | Inr query4 \<Rightarrow>
                     (let query5 = (case offset_limit of None \<Rightarrow> query4
                                                        | Some ol \<Rightarrow> query4 @ '' '' @ ol);
                          parameters =
                            (if search_type = ''full_text_search'' \<or> search_type = ''vector''
                             then build_parameters self k search_type embs projection_mapping
                             else [])
                      in Inr (query5, parameters))))"

section \<open>The document store: result mapping, reranking, delete\<close>

text \<open>
  Dictionary operations on an item: \<open>d[key]\<close> raises \<open>KeyError\<close> on a missing key,
  \<open>d.pop(key, default)\<close> removes the key, \<open>d[key] = v\<close> replaces the value of a key
  or adds the key at the end. Subscripting a value that is not a dictionary with a string
  is a \<open>TypeError\<close>.
\<close>

definition dict_lookup :: "(string \<times> pyval) list \<Rightarrow> string \<Rightarrow> error + pyval" where
  "dict_lookup d key = (case map_of d key of None \<Rightarrow> Inl (KeyError key) | Some v \<Rightarrow> Inr v)"

definition dict_pop ::
  "(string \<times> pyval) list \<Rightarrow> string \<Rightarrow> pyval \<Rightarrow> pyval \<times> (string \<times> pyval) list" where
  "dict_pop d key dflt = (dict_get d key dflt, filter (\<lambda>kv. fst kv \<noteq> key) d)"

fun dict_set :: "(string \<times> pyval) list \<Rightarrow> string \<Rightarrow> pyval \<Rightarrow> (string \<times> pyval) list" where
  "dict_set [] key v = [(key, v)]"
| "dict_set ((k, w) # d) key v = (if k = key then (k, v) # d else (k, w) # dict_set d key v)"

fun get_item :: "pyval \<Rightarrow> string \<Rightarrow> error + pyval" where
  "get_item (PDict d) key = dict_lookup d key"
| "get_item _ key = Inl TypeError"

fun set_item :: "pyval \<Rightarrow> string \<Rightarrow> pyval \<Rightarrow> error + pyval" where
  "set_item (PDict d) key v = Inr (PDict (dict_set d key v))"
| "set_item _ key v = Inl TypeError"

text \<open>
  The loop of \<open>_execute_query\<close> over the projection mapping: every alias except that of
  the text field is copied from the item into the metadata.
\<close>

fun project_loop ::
  "cosmos \<Rightarrow> (string \<times> pyval) list \<Rightarrow> (string \<times> string) list \<Rightarrow> pyval \<Rightarrow> error + pyval" where
  "project_loop self item [] meta = Inr meta"
| "project_loop self item ((key, alias) # rest) meta =
     (if key = text_field self then project_loop self item rest meta
      else (case dict_lookup item alias of
              Inl e \<Rightarrow> Inl e
            | Inr v \<Rightarrow>
                (case set_item meta alias v of
                   Inl e \<Rightarrow> Inl e
                 | Inr meta' \<Rightarrow> project_loop self item rest meta')))"

text \<open>
  The body of the loop of \<open>_execute_query\<close> for one item; the document is built last, and
  its validation may raise.
\<close>

definition scored :: "error + document \<Rightarrow> pyval \<Rightarrow> error + document \<times> pyval" where
  "scored doc score = (case doc of Inl e \<Rightarrow> Inl e | Inr d \<Rightarrow> Inr (d, score))"

definition map_item ::
  "cosmos \<Rightarrow> string \<Rightarrow> bool \<Rightarrow> (string \<times> string) list option \<Rightarrow> (string \<times> pyval) list
     \<Rightarrow> error + document \<times> pyval" where
  "map_item self search_type with_embedding projection_mapping item0 =
     (case dict_lookup item0 (text_field self) of
        Inl e \<Rightarrow> Inl e
      | Inr text \<Rightarrow>
          (let (meta0, item) = dict_pop item0 (metadata_key self) (PDict []);
               score0 = PFloat 0;
               projected =
                 (if truthy projection_mapping
                  then project_loop self item (the projection_mapping) meta0
                  else (case dict_lookup item ''id'' of
                          Inl e \<Rightarrow> Inl e
                        | Inr v \<Rightarrow> set_item meta0 ''id'' v))
           in case projected of
                Inl e \<Rightarrow> Inl e
              | Inr meta1 \<Rightarrow>
                  (if search_type = ''vector'' \<or> search_type = ''hybrid'' then
                     (case dict_lookup item ''SimilarityScore'' of
                        Inl e \<Rightarrow> Inl e
                      | Inr score \<Rightarrow>
                          (if with_embedding then
                             (case dict_lookup item (embedding_field self) of
                                Inl e \<Rightarrow> Inl e
                              | Inr v \<Rightarrow>
                                  (case set_item meta1 (embedding_field self) v of
                                     Inl e \<Rightarrow> Inl e
                                   | Inr meta2 \<Rightarrow> scored (Document text meta2) score))
                           else scored (Document text meta1) score))
                   else scored (Document text meta1) score0)))"

text \<open>
  \<open>_execute_query\<close>, from the items that the container returns on: an exception in one
  item ends the whole call.
\<close>

definition execute_query ::
  "cosmos \<Rightarrow> (string \<times> pyval) list list \<Rightarrow> string \<Rightarrow> bool \<Rightarrow> (string \<times> string) list option
     \<Rightarrow> error + (document \<times> pyval) list" where
  "execute_query self items search_type with_embedding projection_mapping =
     sequence (map (map_item self search_type with_embedding projection_mapping) items)"

text \<open>
  \<open>max_marginal_relevance_search_by_vector\<close> of the document store, from the scored
  documents of the vector search on; \<open>mmr\<close> is the reranker as above.
\<close>

definition index_doc :: "(document \<times> pyval) list \<Rightarrow> nat \<Rightarrow> error + document" where
  "index_doc docs i = (if i < length docs then Inr (fst (docs ! i)) else Inl IndexError)"

definition cosmos_mmr ::
  "cosmos \<Rightarrow> (pyval list \<Rightarrow> nat list) \<Rightarrow> (document \<times> pyval) list \<Rightarrow> error + document list" where
  "cosmos_mmr self mmr docs =
     (case sequence (map (\<lambda>(doc, _). get_item (metadata doc) (embedding_field self)) docs) of
        Inl e \<Rightarrow> Inl e
      | Inr embedding_list \<Rightarrow>
          (let mmr_doc_indexes = mmr embedding_list
           in sequence (map (index_doc docs) mmr_doc_indexes)))"

text \<open>
  \<open>delete\<close> of the document store. \<open>delete_item\<close> is the container's operation, which
  may raise.
\<close>

fun cosmos_delete_loop :: "(string \<Rightarrow> 'c \<Rightarrow> error + 'c) \<Rightarrow> 'c \<Rightarrow> string list \<Rightarrow> error + 'c" where
  "cosmos_delete_loop delete_item container [] = Inr container"
| "cosmos_delete_loop delete_item container (document_id # ids) =
     (case delete_item document_id container of
        Inl e \<Rightarrow> Inl e
      | Inr container' \<Rightarrow> cosmos_delete_loop delete_item container' ids)"

definition cosmos_delete ::
  "(string \<Rightarrow> 'c \<Rightarrow> error + 'c) \<Rightarrow> 'c \<Rightarrow> string list option \<Rightarrow> error + pyval \<times> 'c" where
  "cosmos_delete delete_item container ids =
     (case ids of
        None \<Rightarrow> Inl (ValueError NO_DOCUMENT_IDS_PROVIDED)
      | Some given \<Rightarrow>
          (case cosmos_delete_loop delete_item container given of
             Inl e \<Rightarrow> Inl e
           | Inr container' \<Rightarrow> Inr (PBool True, container')))"

section \<open>Concrete inputs\<close>

text \<open>A table of two rows with the ids "a" and "b".\<close>

definition two_rows :: "unit store" where
  "two_rows =
     \<lparr>rows = [\<lparr>custom_id = ''a'', content_metadata = PDict [], content = ''x'',
                embeddings = ()\<rparr>,
              \<lparr>custom_id = ''b'', content_metadata = PDict [], content = ''y'',
                embeddings = ()\<rparr>],
      uuids_drawn = 0, embed_calls = []\<rparr>"

text \<open>A container that holds the ids of its items; deleting an id removes it.\<close>

definition remove_id :: "string \<Rightarrow> string list \<Rightarrow> error + string list" where
  "remove_id document_id container = Inr (removeAll document_id container)"

text \<open>Two result rows of a marginal-relevance search, both complete.\<close>

definition two_results :: "nat result_row option list" where
  "two_results =
     [Some \<lparr>embeddings_json = 0, distance = Some (PFloat 0),
            EmbeddingStore = Some \<lparr>custom_id = ''a'', content_metadata = PDict [],
                                   content = ''first'', embeddings = 0\<rparr>\<rparr>,
      Some \<lparr>embeddings_json = 1, distance = Some (PFloat 1),
            EmbeddingStore = Some \<lparr>custom_id = ''b'', content_metadata = PDict [],
                                   content = ''second'', embeddings = 1\<rparr>\<rparr>]"


text \<open>A document store with the usual field names, a complete item and one without text.\<close>

definition example_cosmos :: cosmos where
  "example_cosmos =
     \<lparr>table_alias = ''c'', text_field = ''text'', embedding_field = ''embedding'',
      metadata_key = ''metadata''\<rparr>"

definition good_item :: "(string \<times> pyval) list" where
  "good_item = [(''id'', PStr ''1''), (''text'', PStr ''hello''), (''SimilarityScore'', PFloat 1)]"




section \<open>Properties of the filter compiler\<close>

lemma bound_parameters_append [simp]:
  "bound_parameters (ts @ ts') = bound_parameters ts @ bound_parameters ts'"
  by (induction ts rule: bound_parameters.induct) simp_all

lemma bound_parameters_Params [simp]: "bound_parameters (map Param vs) = vs"
  by (induction vs) simp_all

lemma fixed_or_bound_Params [simp]: "list_all fixed_or_bound (map Param vs)"
  by (induction vs) simp_all

lemma bound_parameters_Params_comp [simp]: "bound_parameters (map (Param \<circ> f) xs) = map f xs"
  by (induction xs) simp_all

lemma fixed_or_bound_Params_comp [simp]: "list_all fixed_or_bound (map (Param \<circ> f) xs)"
  by (induction xs) simp_all

lemma fixed_fragments [simp]:
  "''content_metadata'' \<in> set SQL_FRAGMENTS" "''JSON_VALUE('' \<in> set SQL_FRAGMENTS"
  "'', '' \<in> set SQL_FRAGMENTS" "'')'' \<in> set SQL_FRAGMENTS" "''CAST('' \<in> set SQL_FRAGMENTS"
  "'' AS NUMERIC(10, 2))'' \<in> set SQL_FRAGMENTS" "'' IN ('' \<in> set SQL_FRAGMENTS"
  "'' LIKE '' \<in> set SQL_FRAGMENTS" "'' AND '' \<in> set SQL_FRAGMENTS"
  "'' OR '' \<in> set SQL_FRAGMENTS" "''NULL'' \<in> set SQL_FRAGMENTS"
  "'' = '' \<in> set SQL_FRAGMENTS" "'' != '' \<in> set SQL_FRAGMENTS"
  "'' < '' \<in> set SQL_FRAGMENTS" "'' <= '' \<in> set SQL_FRAGMENTS"
  "'' > '' \<in> set SQL_FRAGMENTS" "'' >= '' \<in> set SQL_FRAGMENTS"
  by (simp_all add: SQL_FRAGMENTS_def)

lemma fixed_binop [simp]: "binop_text operation \<in> set SQL_FRAGMENTS"
  by (cases operation) (simp_all add: SQL_FRAGMENTS_def)

lemma json_value_render [simp]:
  "list_all fixed_or_bound (render (json_value field))"
  "bound_parameters (render (json_value field)) = [Raw (PStr (''$.'' @ field))]"
  by (simp_all add: json_value_def)

lemma separated_fixed:
  assumes "fixed_or_bound sep" and "\<forall>ts \<in> set tss. list_all fixed_or_bound ts"
  shows "list_all fixed_or_bound (separated sep tss)"
  using assms by (induction sep tss rule: separated.induct) simp_all

lemma separated_parameters:
  "set (bound_parameters (separated (Sql written) tss)) = (\<Union>ts \<in> set tss. set (bound_parameters ts))"
  by (induction "Sql written" tss rule: separated.induct) auto

lemma comparisons_Some:
  "map_of COMPARISONS_TO_NATIVE operator = Some operation \<Longrightarrow>
     operator = ''$eq'' \<or> operator = ''$ne''"
  by (simp add: COMPARISONS_TO_NATIVE_def split: if_splits)

lemma numeric_Some:
  "map_of NUMERIC_OPERATORS operator = Some operation \<Longrightarrow>
     operator \<in> {''$lt'', ''$lte'', ''$gt'', ''$gte''}"
  by (simp add: NUMERIC_OPERATORS_def split: if_splits)

lemma unpack2_Inr:
  assumes "unpack2 v = Inr (low, high)"
  shows "py_iter v = Some [low, high]"
proof (cases "py_iter v")
  case None
  with assms show ?thesis by (simp add: unpack2_def)
next
  case (Some xs)
  with assms show ?thesis
    by (cases xs; cases "tl xs"; cases "tl (tl xs)") (auto simp: unpack2_def)
qed

lemma spec_operands_simps:
  "spec_operands ''$eq'' v = [py_str v]"
  "spec_operands ''$ne'' v = [py_str v]"
  "spec_operands ''$like'' v = [py_str v]"
  "spec_operands ''$between'' v = (case py_iter v of None \<Rightarrow> [] | Some vs \<Rightarrow> map Raw vs)"
  "spec_operands ''$in'' v = (case py_iter v of None \<Rightarrow> [] | Some vs \<Rightarrow> map py_str vs)"
  "spec_operands ''$nin'' v = (case py_iter v of None \<Rightarrow> [] | Some vs \<Rightarrow> map py_str vs)"
  by (simp_all add: spec_operands_def)

lemma spec_operands_numeric:
  assumes "operator \<in> {''$lt'', ''$lte'', ''$gt'', ''$gte''}"
  shows "spec_operands operator v = [Raw v]"
proof -
  from assms consider "operator = ''$lt''" | "operator = ''$lte''" | "operator = ''$gt''"
    | "operator = ''$gte''" by blast
  then show ?thesis by cases (simp_all add: spec_operands_def)
qed

lemma handle_operator_values:
  assumes "handle_operator field operator filter_value = Inr e"
  shows "list_all fixed_or_bound (render e)
       \<and> set (spec_operands operator filter_value) \<subseteq> set (bound_parameters (render e))"
proof (cases "map_of COMPARISONS_TO_NATIVE operator")
  case (Some operation)
  with assms have e: "e = Binary operation (json_value field) (BindParam (py_str filter_value))"
    by (simp add: handle_operator_def)
  from comparisons_Some [OF Some]
  have "spec_operands operator filter_value = [py_str filter_value]"
    by (auto simp: spec_operands_simps)
  with e show ?thesis by simp
next
  case None
  note cmp = this
  show ?thesis
  proof (cases "map_of NUMERIC_OPERATORS operator")
    case (Some operation)
    with assms cmp have "e = Binary operation (Cast_Numeric_10_2 (json_value field))
                               (BindParam (Raw filter_value))
        \<or> e = Binary operation (json_value field) (BindParam (Raw filter_value))"
      by (simp add: handle_operator_def split: if_splits)
    moreover from numeric_Some [OF Some]
    have "spec_operands operator filter_value = [Raw filter_value]"
      by (rule spec_operands_numeric)
    ultimately show ?thesis by auto
  next
    case None
    note num = this
    show ?thesis
    proof (cases "operator = ''$between''")
      case True
      show ?thesis
      proof (cases "unpack2 filter_value")
        case (Inl err)
        with assms cmp num True show ?thesis
          by (simp add: handle_operator_def BETWEEN_OPERATOR_def)
      next
        case (Inr lh)
        obtain low high where lh: "lh = (low, high)" by (cases lh)
        from Inr lh have it: "py_iter filter_value = Some [low, high]"
          by (simp add: unpack2_Inr)
        from assms cmp num True Inr lh
        have "e = And_clause [Binary Ge (Cast_Numeric_10_2 (json_value field))
                                 (BindParam (Raw low)),
                               Binary Le (Cast_Numeric_10_2 (json_value field))
                                 (BindParam (Raw high))]
          \<or> e = And_clause [Binary Ge (json_value field) (BindParam (Raw low)),
                               Binary Le (json_value field) (BindParam (Raw high))]"
          by (simp add: handle_operator_def BETWEEN_OPERATOR_def split: if_splits)
        with it True show ?thesis by (auto simp: spec_operands_simps)
      qed
    next
      case False
      note btw = this
      show ?thesis
      proof (cases "operator = ''$in'' \<or> operator = ''$nin''")
        case True
        show ?thesis
        proof (cases "py_iter filter_value")
          case None
          with assms cmp num btw True show ?thesis
            by (auto simp: handle_operator_def BETWEEN_OPERATOR_def SPECIAL_CASED_OPERATORS_def)
        next
          case (Some vals)
          with assms cmp num btw True
          have "operator = ''$in'' \<and> e = In_clause (json_value field) (map py_str vals)"
            by (auto simp: handle_operator_def BETWEEN_OPERATOR_def SPECIAL_CASED_OPERATORS_def
                split: if_splits)
          with Some show ?thesis by (auto simp: spec_operands_simps)
        qed
      next
        case False
        with assms cmp num btw
        have "operator = ''$like''
            \<and> e = Like (json_value field) (BindParam (py_str filter_value))"
          by (simp add: handle_operator_def BETWEEN_OPERATOR_def SPECIAL_CASED_OPERATORS_def
              split: if_splits)
        then show ?thesis by (simp add: spec_operands_simps)
      qed
    qed
  qed
qed

lemma operator_and_value_spec:
  "operator_and_value v = Inr (operator, filter_value) \<Longrightarrow>
     spec_field_values v = spec_operands operator filter_value"
  by (induction v rule: operator_and_value.induct)
     (auto simp: spec_operands_simps split: if_splits)

lemma handle_field_filter_values:
  assumes "handle_field_filter field v = Inr e"
  shows "list_all fixed_or_bound (render e)
       \<and> set (spec_field_values v) \<subseteq> set (bound_parameters (render e))"
proof (cases "operator_and_value v")
  case (Inl err)
  with assms show ?thesis by (simp add: handle_field_filter_def split: if_splits)
next
  case (Inr ov)
  obtain operator filter_value where ov: "ov = (operator, filter_value)" by (cases ov)
  from assms Inr ov have "handle_operator field operator filter_value = Inr e"
    by (simp add: handle_field_filter_def split: if_splits)
  from handle_operator_values [OF this] operator_and_value_spec [of v operator filter_value] Inr ov
  show ?thesis by simp
qed

lemma sequence_Inr: "sequence rs = Inr xs \<Longrightarrow> rs = map Inr xs"
proof (induction rs arbitrary: xs)
  case Nil
  then show ?case by simp
next
  case (Cons r rs)
  then show ?case by (cases r) (auto split: sum.splits)
qed

lemma sequence_map_Inr:
  assumes "sequence (map f xs) = Inr ys"
  shows "list_all2 (\<lambda>x y. f x = Inr y) xs ys"
proof -
  from sequence_Inr [OF assms] have "map f xs = map Inr ys" .
  then show ?thesis
    by (induction xs arbitrary: ys) (auto simp: list_all2_Cons1)
qed

lemma combine_bound_ok:
  assumes "list_all2 (\<lambda>x c. bound_ok (g x) c) xs cs"
    and "combine connective cs = Inr c"
    and "connective = And_clause \<or> connective = Or_clause"
  shows "bound_ok (concat (map g xs)) c"
proof -
  from assms(1)
  have each: "(\<forall>ts \<in> set (map (render \<circ> clause_arg) cs). list_all fixed_or_bound ts)
      \<and> set (concat (map g xs))
          \<subseteq> (\<Union>ts \<in> set (map (render \<circ> clause_arg) cs). set (bound_parameters ts))"
    by (induction xs cs rule: list_all2_induct) (auto simp: bound_ok_def)
  let ?tss = "map (render \<circ> clause_arg) cs"
  from assms(3) obtain written
    where conn: "render (connective (map clause_arg cs)) = separated (Sql written) ?tss"
      and sep: "fixed_or_bound (Sql written)"
    by auto
  from each sep have "list_all fixed_or_bound (separated (Sql written) ?tss)"
    by (intro separated_fixed) simp_all
  moreover from each
  have "set (concat (map g xs)) \<subseteq> set (bound_parameters (separated (Sql written) ?tss))"
    by (simp only: separated_parameters)
  ultimately
  have all: "list_all fixed_or_bound (render (connective (map clause_arg cs)))
      \<and> set (concat (map g xs))
          \<subseteq> set (bound_parameters (render (connective (map clause_arg cs))))"
    by (simp only: conn)
  show ?thesis
  proof (cases cs)
    case Nil
    with assms(2) show ?thesis by (simp add: combine_def)
  next
    case (Cons c' cs')
    show ?thesis
    proof (cases cs')
      case Nil
      with Cons assms(1) obtain x where "xs = [x]" "bound_ok (g x) c'"
        by (auto simp: list_all2_Cons2)
      moreover from Nil Cons assms(2) have "c = c'" by (simp add: combine_def)
      ultimately show ?thesis by (simp add: bound_ok_def)
    next
      case (Cons c'' cs'')
      with \<open>cs = c' # cs'\<close> assms(2) have "c = Some (connective (map clause_arg cs))"
        by (simp add: combine_def)
      with all show ?thesis by (simp add: bound_ok_def clause_arg_def)
    qed
  qed
qed

lemma handle_fields_bound_ok:
  assumes "sequence (map (\<lambda>(k, v). handle_field_filter k v) kvs) = Inr es"
  shows "list_all2 (\<lambda>kv c. bound_ok (case kv of (k, v) \<Rightarrow> spec_field_values v) c)
           kvs (map Some es)"
proof -
  from sequence_map_Inr [OF assms]
  have "list_all2 (\<lambda>kv e. (case kv of (k, v) \<Rightarrow> handle_field_filter k v) = Inr e) kvs es" .
  then show ?thesis
  proof (induction kvs es rule: list_all2_induct)
    case Nil
    then show ?case by simp
  next
    case (Cons kv kvs e es)
    obtain k v where kv: "kv = (k, v)" by (cases kv)
    with Cons.hyps(1) have "handle_field_filter k v = Inr e" by simp
    from handle_field_filter_values [OF this] kv Cons.IH show ?case
      by (simp add: bound_ok_def clause_arg_def)
  qed
qed

lemma create_filter_clause_bound_ok:
  "create_filter_clause filters = Inr c \<Longrightarrow> bound_ok (spec_values filters) c"
proof (induction filters arbitrary: c rule: create_filter_clause.induct)
  case 1
  then show ?case by (simp add: bound_ok_def clause_arg_def)
next
  case 2
  then show ?case by simp
next
  case (3 key v)
  show ?case
  proof (cases "startswith_dollar key")
    case False
    with "3.prems" obtain e where "handle_field_filter key v = Inr e" "c = Some e"
      by (cases "handle_field_filter key v") auto
    with handle_field_filter_values [of key v e] False show ?thesis
      by (simp add: bound_ok_def clause_arg_def)
  next
    case True
    note dollar = this
    show ?thesis
    proof (cases "lower key \<in> set LOGICAL_OPERATORS")
      case False
      with "3.prems" dollar show ?thesis by simp
    next
      case True
      note logical = this
      then have key: "lower key = ''$and'' \<or> lower key = ''$or''"
        by (simp add: LOGICAL_OPERATORS_def)
      show ?thesis
      proof (cases v)
        case (PList els)
        from "3.IH" dollar logical PList key
        have IH: "\<And>el c'. el \<in> set els \<Longrightarrow> create_filter_clause el = Inr c'
                    \<Longrightarrow> bound_ok (spec_values el) c'"
          by blast
        from "3.prems" dollar logical PList key
        obtain cs connective where seq: "sequence (map create_filter_clause els) = Inr cs"
          and comb: "combine connective cs = Inr c"
          and conn: "connective = And_clause \<or> connective = Or_clause"
          by (cases "sequence (map create_filter_clause els)") (auto split: if_splits)
        from sequence_map_Inr [OF seq]
        have "list_all2 (\<lambda>el c'. create_filter_clause el = Inr c') els cs" .
        then have "list_all2 (\<lambda>el c'. bound_ok (spec_values el) c') els cs"
          using IH by (induction els cs rule: list_all2_induct) auto
        from combine_bound_ok [OF this comb conn] dollar PList show ?thesis by simp
      qed (use "3.prems" dollar logical in auto)
    qed
  qed
next
  case (4 kv kv' kvs)
  let ?kvs = "kv # kv' # kvs"
  from "4.prems" obtain es
    where seq: "sequence (map (\<lambda>(k, v). handle_field_filter k v) ?kvs) = Inr es"
      and comb: "combine And_clause (map Some es) = Inr c"
    by (auto split: list.splits sum.splits)
  from combine_bound_ok [OF handle_fields_bound_ok [OF seq] comb]
  show ?case by simp
qed simp_all

lemma lower_char_dollar: "lower_char c = CHR ''$'' \<Longrightarrow> c = CHR ''$''"
  by (auto simp: lower_char_def split: if_splits)

lemma lower_startswith: "lower key = CHR ''$'' # rest \<Longrightarrow> startswith_dollar key"
  by (cases key) (auto simp: lower_def dest: lower_char_dollar)

text \<open>
  C1. Whenever the filter compiler accepts a filter and returns a clause, the statement
  text of that clause consists of fixed pieces of SQL and of parameter placeholders only,
  so that no value (and no other content of the filter) is written into the text, and every
  value that the filter compares a field against (the values of Eq, Ne, Lt, Lte, Gt, Gte
  and Like, the two bounds of Between, the elements of In and NotIn) is among the bound
  parameters of the statement.
\<close>

theorem compiled_values_are_bound:
  assumes "create_filter_clause filters = Inr (Some e)"
  shows "list_all fixed_or_bound (render e)
       \<and> set (spec_values filters) \<subseteq> set (bound_parameters (render e))"
  using create_filter_clause_bound_ok [OF assms] by (simp add: bound_ok_def clause_arg_def)

theorem compiled_values_are_bound_witness:
  "create_filter_clause
     (PDict [(''$or'', PList [PDict [(''id'', PInt 1)],
                             PDict [(''name'', PDict [(''$in'', PList [PStr ''bob'', PInt 3])])]])])
     = Inr (Some (Or_clause
         [Binary Eq (json_value ''id'') (BindParam (Str (PInt 1))),
          In_clause (json_value ''name'') [Raw (PStr ''bob''), Str (PInt 3)]]))
   \<and> render (Or_clause
         [Binary Eq (json_value ''id'') (BindParam (Str (PInt 1))),
          In_clause (json_value ''name'') [Raw (PStr ''bob''), Str (PInt 3)]])
     = [Sql ''JSON_VALUE('', Sql ''content_metadata'', Sql '', '', Param (Raw (PStr ''$.id'')),
        Sql '')'', Sql '' = '', Param (Str (PInt 1)), Sql '' OR '',
        Sql ''JSON_VALUE('', Sql ''content_metadata'', Sql '', '', Param (Raw (PStr ''$.name'')),
        Sql '')'', Sql '' IN ('', Param (Raw (PStr ''bob'')), Param (Str (PInt 3)), Sql '')'']
   \<and> list_all fixed_or_bound (render (Or_clause
         [Binary Eq (json_value ''id'') (BindParam (Str (PInt 1))),
          In_clause (json_value ''name'') [Raw (PStr ''bob''), Str (PInt 3)]]))
   \<and> {Str (PInt 1), Raw (PStr ''bob''), Str (PInt 3)}
       \<subseteq> set (bound_parameters (render (Or_clause
         [Binary Eq (json_value ''id'') (BindParam (Str (PInt 1))),
          In_clause (json_value ''name'') [Raw (PStr ''bob''), Str (PInt 3)]])))"
proof -
  let ?f = "PDict [(''$or'', PList [PDict [(''id'', PInt 1)],
                             PDict [(''name'', PDict [(''$in'', PList [PStr ''bob'', PInt 3])])]])]"
  let ?e = "Or_clause
         [Binary Eq (json_value ''id'') (BindParam (Str (PInt 1))),
          In_clause (json_value ''name'') [Raw (PStr ''bob''), Str (PInt 3)]]"
  have c: "create_filter_clause ?f = Inr (Some ?e)"
    by (simp add: handle_field_filter_def handle_operator_def id_start_def
        id_continue_def SUPPORTED_OPERATORS_def COMPARISONS_TO_NATIVE_def NUMERIC_OPERATORS_def
        SPECIAL_CASED_OPERATORS_def BETWEEN_OPERATOR_def LOGICAL_OPERATORS_def
        lower_def lower_char_def combine_def clause_arg_def)
  have v: "spec_values ?f = [Str (PInt 1), Raw (PStr ''bob''), Str (PInt 3)]"
    by (simp add: spec_operands_def)
  have r: "render ?e
     = [Sql ''JSON_VALUE('', Sql ''content_metadata'', Sql '', '', Param (Raw (PStr ''$.id'')),
        Sql '')'', Sql '' = '', Param (Str (PInt 1)), Sql '' OR '',
        Sql ''JSON_VALUE('', Sql ''content_metadata'', Sql '', '', Param (Raw (PStr ''$.name'')),
        Sql '')'', Sql '' IN ('', Param (Raw (PStr ''bob'')), Param (Str (PInt 3)), Sql '')'']"
    by (simp add: json_value_def)
  from compiled_values_are_bound [OF c] c v r show ?thesis by simp
qed

text \<open>
  A statement that writes a value into its text is told apart: the clause built for the
  distance of a vector search renders its three \<open>literal_execute\<close> parameters into the
  statement, and text assembled by the program is not one of the fixed pieces.
\<close>

lemma written_values_are_not_fixed:
  "\<not> list_all fixed_or_bound (render (distance_subquery ''cosine'' 3 [1]))"
  "\<not> list_all fixed_or_bound
       (render (And_clause [TextClause ''price >= 5'' [],
                            Binary Ge (json_value ''price'') (BindParam (Raw (PInt 5)))]))"
  by (simp_all add: distance_subquery_def SQL_FRAGMENTS_def)

text \<open>
  C2. A range filter whose two bounds are the strings "5" and "10" is compiled with the
  numeric cast on the extracted field value in both comparisons: the test that guards
  the cast looks at the pair, which is never a string, not at its elements. The claim
  asks for a textual comparison without the cast here.
\<close>

theorem between_strings_is_cast:
  "handle_field_filter ''price'' (PDict [(''$between'', PTuple [PStr ''5'', PStr ''10''])])
     = Inr (And_clause
         [Binary Ge (Cast_Numeric_10_2 (json_value ''price'')) (BindParam (Raw (PStr ''5''))),
          Binary Le (Cast_Numeric_10_2 (json_value ''price'')) (BindParam (Raw (PStr ''10'')))])"
  by (simp add: handle_field_filter_def handle_operator_def id_start_def
        id_continue_def SUPPORTED_OPERATORS_def COMPARISONS_TO_NATIVE_def NUMERIC_OPERATORS_def
        SPECIAL_CASED_OPERATORS_def BETWEEN_OPERATOR_def LOGICAL_OPERATORS_def unpack2_def)

text \<open>
  C6. A logical node (\<open>$and\<close> or \<open>$or\<close>, in any letter case) with no children is
  rejected with the error of an empty conjunction, and one with exactly one child
  compiles to whatever that child compiles to, with no connective around it.
\<close>

theorem and_or_zero_or_one_child:
  assumes "lower key = ''$and'' \<or> lower key = ''$or''"
  shows "create_filter_clause (PDict [(key, PList [])])
           = Inl (ValueError INVALID_FILTER_INPUT_EXPECTED_DICT)
       \<and> create_filter_clause (PDict [(key, PList [child])]) = create_filter_clause child"
proof -
  from assms have d: "startswith_dollar key" by (auto dest: lower_startswith)
  from assms have l: "lower key \<in> set LOGICAL_OPERATORS" by (auto simp: LOGICAL_OPERATORS_def)
  show ?thesis using assms d l
    by (cases "create_filter_clause child") (auto simp: combine_def)
qed

theorem and_or_zero_or_one_child_witness:
  "create_filter_clause (PDict [(''$and'', PList [])])
           = Inl (ValueError INVALID_FILTER_INPUT_EXPECTED_DICT)
   \<and> create_filter_clause (PDict [(''$and'', PList [PDict [(''id'', PInt 1)]])])
       = Inr (Some (Binary Eq (json_value ''id'') (BindParam (Str (PInt 1)))))"
proof -
  have k: "lower ''$and'' = ''$and'' \<or> lower ''$and'' = ''$or''"
    by (simp add: lower_def lower_char_def)
  have c: "create_filter_clause (PDict [(''id'', PInt 1)])
       = Inr (Some (Binary Eq (json_value ''id'') (BindParam (Str (PInt 1)))))"
    by (simp add: handle_field_filter_def handle_operator_def id_start_def id_continue_def
        COMPARISONS_TO_NATIVE_def)
  show ?thesis
    using and_or_zero_or_one_child [OF k, of "PDict [(''id'', PInt 1)]"] c by simp
qed

section \<open>Properties of delete\<close>

lemma cosmos_delete_True:
  assumes "cosmos_delete delete_item container ids = Inr (r, container')"
  shows "r = PBool True"
  using assms by (auto simp: cosmos_delete_def split: option.splits sum.splits)

text \<open>
  C9, as the code has it. For a non-empty list of ids the delete operation returns a truth
  value, not the count of rows affected: the relational delete returns \<open>True\<close> when the
  count of rows affected is positive and \<open>False\<close> when it is zero, and the document-store
  delete returns \<open>True\<close> whenever it returns.
\<close>

theorem delete_returns_bool:
  assumes "ids \<noteq> []"
  shows "fst (delete st (Some ids)) = PBool (0 < fst (delete_texts_by_ids st (Some ids)))
       \<and> (\<forall>r c'. cosmos_delete delete_item container (Some ids) = Inr (r, c') \<longrightarrow> r = PBool True)"
proof -
  from assms
  have "fst (delete st (Some ids)) = PBool (0 < fst (delete_texts_by_ids st (Some ids)))"
    by (simp add: delete_def case_prod_unfold Let_def)
  then show ?thesis by (auto dest: cosmos_delete_True)
qed

theorem delete_returns_bool_witness:
  "fst (delete two_rows (Some [''a''])) = PBool True
   \<and> fst (delete_texts_by_ids two_rows (Some [''a''])) = 1
   \<and> fst (delete two_rows (Some [''c''])) = PBool False
   \<and> fst (delete_texts_by_ids two_rows (Some [''c''])) = 0
   \<and> cosmos_delete remove_id [''a'', ''b''] (Some [''a'']) = Inr (PBool True, [''b''])"
proof -
  have n: "[''a''] \<noteq> []" "[''c''] \<noteq> []" by simp_all
  have c: "cosmos_delete remove_id [''a'', ''b''] (Some [''a'']) = Inr (PBool True, [''b''])"
    by (simp add: cosmos_delete_def remove_id_def)
  have d: "fst (delete_texts_by_ids two_rows (Some [''a''])) = 1"
    "fst (delete_texts_by_ids two_rows (Some [''c''])) = 0"
    by (simp_all add: delete_texts_by_ids_def two_rows_def id_matches_def)
  from delete_returns_bool [OF n(1), of two_rows remove_id "[''a'', ''b'']"]
    delete_returns_bool [OF n(2), of two_rows remove_id "[''a'', ''b'']"] c d
  show ?thesis by simp
qed

text \<open>
  Deleting both rows of a table of two affects two rows, and the result is \<open>True\<close>, not
  the number 2.
\<close>

theorem delete_count_counterexample:
  "fst (delete_texts_by_ids two_rows (Some [''a'', ''b''])) = 2
   \<and> fst (delete two_rows (Some [''a'', ''b''])) = PBool True
   \<and> fst (delete two_rows (Some [''a'', ''b''])) \<noteq> PInt 2"
  by (simp add: delete_def delete_texts_by_ids_def two_rows_def id_matches_def)

text \<open>
  C10. In the relational store, delete without ids empties the table, and delete with
  the empty list of ids returns \<open>False\<close> and leaves the store as it was.
\<close>

theorem delete_none_and_empty:
  "rows (snd (delete st None)) = [] \<and> delete st (Some []) = (PBool False, st)"
  by (simp add: delete_def delete_texts_by_ids_def)

section \<open>Properties of result mapping and reranking\<close>

lemma cosmos_mmr_selection_order:
  assumes "cosmos_mmr self mmr docs = Inr ds"
  shows "\<exists>embedding_list.
           sequence (map (\<lambda>(doc, _). get_item (metadata doc) (embedding_field self)) docs)
             = Inr embedding_list
         \<and> ds = map (\<lambda>i. fst (docs ! i)) (mmr embedding_list)"
proof -
  from assms obtain embedding_list
    where e: "sequence (map (\<lambda>(doc, _). get_item (metadata doc) (embedding_field self)) docs)
               = Inr embedding_list"
      and s: "sequence (map (index_doc docs) (mmr embedding_list)) = Inr ds"
    by (auto simp: cosmos_mmr_def split: sum.splits)
  from sequence_map_Inr [OF s]
  have "list_all2 (\<lambda>i d. index_doc docs i = Inr d) (mmr embedding_list) ds" .
  then have "ds = map (\<lambda>i. fst (docs ! i)) (mmr embedding_list)"
    by (induction rule: list_all2_induct) (auto simp: index_doc_def split: if_splits)
  with e show ?thesis by blast
qed

text \<open>
  C3. The relational store's reranking returns the selected documents in the order of
  the search result, not in the order of selection: when the reranker selects the second
  row first and the first row second, the first row's document still comes first. The
  document store (lemma \<open>cosmos_mmr_selection_order\<close>) returns the order of selection.
\<close>

theorem sqlserver_mmr_store_order:
  "sqlserver_mmr (\<lambda>embedding_list. [1, 0]) two_results
     = Inr [\<lparr>page_content = PStr ''first'', metadata = PDict []\<rparr>,
            \<lparr>page_content = PStr ''second'', metadata = PDict []\<rparr>]"
  by (simp add: sqlserver_mmr_def two_results_def row_embedding_def docs_from_result_def
      docs_and_scores_from_result_def Document_def)

lemma sequence_Inl:
  assumes "r \<in> set rs" and "r = Inl e"
  shows "\<exists>e'. sequence rs = Inl e'"
  using assms
proof (induction rs)
  case Nil
  then show ?case by simp
next
  case (Cons a rs)
  then show ?case by (cases a) (auto split: sum.splits)
qed

lemma bad_item_is_fatal:
  assumes "item \<in> set items"
    and "map_item self search_type with_embedding projection_mapping item = Inl e"
  shows "\<exists>e'. execute_query self items search_type with_embedding projection_mapping = Inl e'"
  unfolding execute_query_def
  using assms by (intro sequence_Inl [of "Inl e"]) (auto simp: image_iff intro!: bexI [of _ item])





lemma map_of_without_key:
  "map_of (filter (\<lambda>kv. fst kv \<noteq> key) d) k = (if k = key then None else map_of d k)"
  by (induction d) auto

lemma map_item_score:
  assumes "map_item self search_type with_embedding projection_mapping item = Inr (doc, score)"
  shows "score = (if search_type = ''vector'' \<or> search_type = ''hybrid''
                  then the (map_of item ''SimilarityScore'') else PFloat 0)"
proof (cases "search_type = ''vector'' \<or> search_type = ''hybrid''")
  case True
  with assms
  have "dict_lookup (filter (\<lambda>kv. fst kv \<noteq> metadata_key self) item) ''SimilarityScore''
          = Inr score"
    by (auto simp: map_item_def dict_pop_def Let_def scored_def split: sum.splits if_splits)
  then have "map_of item ''SimilarityScore'' = Some score"
    by (auto simp: dict_lookup_def map_of_without_key split: option.splits if_splits)
  with True show ?thesis by simp
next
  case False
  with assms show ?thesis
    by (auto simp: map_item_def dict_pop_def Let_def scored_def split: sum.splits if_splits)
qed

text \<open>
  C8. Whenever the document store maps a result, it returns one scored document per item,
  in order; in the vector and hybrid modes the score is the item's \<open>SimilarityScore\<close>
  as it is, and in every other mode (full-text search, full-text ranking) it is 0.0.
\<close>

theorem score_by_search_type:
  assumes "execute_query self items search_type with_embedding projection_mapping = Inr docs"
  shows "length docs = length items
       \<and> (\<forall>i < length items.
            snd (docs ! i) =
              (if search_type = ''vector'' \<or> search_type = ''hybrid''
               then the (map_of (items ! i) ''SimilarityScore'') else PFloat 0))"
proof -
  from assms
  have all: "list_all2 (\<lambda>item d. map_item self search_type with_embedding projection_mapping item
                               = Inr d) items docs"
    unfolding execute_query_def by (rule sequence_map_Inr)
  then have len: "length docs = length items" by (simp add: list_all2_lengthD)
  have "snd (docs ! i) =
          (if search_type = ''vector'' \<or> search_type = ''hybrid''
           then the (map_of (items ! i) ''SimilarityScore'') else PFloat 0)"
    if "i < length items" for i
  proof -
    from all that
    have "map_item self search_type with_embedding projection_mapping (items ! i) = Inr (docs ! i)"
      by (rule list_all2_nthD)
    then show ?thesis
      using map_item_score [of self search_type with_embedding projection_mapping "items ! i"
          "fst (docs ! i)" "snd (docs ! i)"]
      by simp
  qed
  with len show ?thesis by blast
qed

theorem score_by_search_type_witness:
  "execute_query example_cosmos [good_item] ''hybrid'' False None
     = Inr [(\<lparr>page_content = PStr ''hello'', metadata = PDict [(''id'', PStr ''1'')]\<rparr>, PFloat 1)]
   \<and> snd ([(\<lparr>page_content = PStr ''hello'', metadata = PDict [(''id'', PStr ''1'')]\<rparr>, PFloat 1)] ! 0)
       = the (map_of good_item ''SimilarityScore'')"
proof -
  have e: "execute_query example_cosmos [good_item] ''hybrid'' False None
     = Inr [(\<lparr>page_content = PStr ''hello'', metadata = PDict [(''id'', PStr ''1'')]\<rparr>, PFloat 1)]"
    by (simp add: execute_query_def map_item_def example_cosmos_def good_item_def
        dict_lookup_def dict_pop_def dict_get_def truthy_def scored_def Document_def)
  from score_by_search_type [OF e] e show ?thesis by simp
qed

section \<open>Properties of query construction\<close>

lemma add_ordering_failure:
  "map_sum id (\<lambda>q. ()) (add_ordering fmt self search_type embs full_text_rank_filter query)
   = map_sum id (\<lambda>q. ()) (add_ordering fmt self search_type embs full_text_rank_filter query')"
proof (cases full_text_rank_filter)
  case None
  then show ?thesis by (simp add: add_ordering_def Let_def)
next
  case (Some rank_filters)
  show ?thesis
  proof (cases "sequence (map (rank_component (table_alias self)) rank_filters)")
    case (Inl e)
    with Some show ?thesis
      by (cases "rank_item (rank_filters ! 0) ''search_field''";
          cases "rank_item (rank_filters ! 0) ''search_text''")
         (simp_all add: add_ordering_def Let_def)
  next
    case (Inr rank_components)
    with Some show ?thesis
      by (cases "rank_item (rank_filters ! 0) ''search_field''";
          cases "rank_item (rank_filters ! 0) ''search_text''")
         (simp_all add: add_ordering_def Let_def)
  qed
qed

lemma map_sum_unit_cases:
  assumes "map_sum id (\<lambda>q. ()) a = map_sum id (\<lambda>q. ()) b"
  obtains e where "a = Inl e" "b = Inl e" | x y where "a = Inr x" "b = Inr y"
  using assms by (cases a; cases b) auto

lemma construct_query_failure:
  "map_sum id (\<lambda>q. ())
     (construct_query fmt self k search_type embs full_text_rank_filter offset_limit
        projection_mapping with_embedding where_clause)
   = map_sum id (\<lambda>q. ())
       (construct_query fmt self k' search_type embs full_text_rank_filter offset_limit
          projection_mapping with_embedding where_clause)
   \<and> map_sum id snd
     (construct_query fmt self k search_type embs full_text_rank_filter offset_limit
        projection_mapping with_embedding where_clause)
   = map_sum id (\<lambda>q. if search_type = ''full_text_search'' \<or> search_type = ''vector''
                      then build_parameters self k search_type embs projection_mapping else [])
       (construct_query fmt self k' search_type embs full_text_rank_filter offset_limit
          projection_mapping with_embedding where_clause)"
proof (cases "generate_projection_fields fmt self projection_mapping search_type embs
                full_text_rank_filter with_embedding")
  case (Inl e)
  then show ?thesis by (simp add: construct_query_def Let_def)
next
  case (Inr projection)
  define query3 where "query3 k =
    (let query0 =
            (if search_type = ''full_text_ranking'' \<or> search_type = ''hybrid''
             then ''SELECT '' @ (if \<not> truthy offset_limit then ''TOP '' @ str_int k @ '' '' else [])
             else ''SELECT '' @ (if \<not> truthy offset_limit then ''TOP @limit '' else []));
         query1 = query0 @ projection;
         query2 = query1 @ '' FROM '' @ table_alias self @ '' ''
     in if truthy where_clause then query2 @ ''WHERE '' @ the where_clause else query2)" for k
  have unfold: "construct_query fmt self j search_type embs full_text_rank_filter offset_limit
          projection_mapping with_embedding where_clause
      = (case add_ordering fmt self search_type embs full_text_rank_filter (query3 j) of
           Inl e \<Rightarrow> Inl e
         | Inr query4 \<Rightarrow>
             Inr (case offset_limit of None \<Rightarrow> query4 | Some ol \<Rightarrow> query4 @ '' '' @ ol,
                  if search_type = ''full_text_search'' \<or> search_type = ''vector''
                  then build_parameters self j search_type embs projection_mapping else []))"
    for j
    using Inr by (simp only: construct_query_def query3_def Let_def sum.case)
  from add_ordering_failure [of fmt self search_type embs full_text_rank_filter
      "query3 k" "query3 k'"]
  show ?thesis
    by (cases rule: map_sum_unit_cases) (simp_all add: unfold)
qed

lemma search_store_query_limit:
  "map_sum id limit
     (search_store_query strategy_attr embedding_length embedding k filters marginal_relevance)
   = map_sum id (\<lambda>q. k)
       (search_store_query strategy_attr embedding_length embedding k' filters
          marginal_relevance)"
  by (cases "create_filter_clause filters"; cases "distance_strategy strategy_attr")
     (simp_all add: search_store_query_def Let_def)

text \<open>
  C4, as the code has it. Building the query makes no check of \<open>k\<close>: in both stores,
  whether building fails, and with which error, is the same for every \<open>k\<close>, so that there
  is no error for \<open>k \<le> 0\<close>; and whenever the query is built, \<open>k\<close> is passed on as it comes,
  bound to \<open>@limit\<close> by a vector or full-text search of the document store and made the
  limit of the statement of the relational store.
\<close>

theorem limit_is_not_validated:
  "map_sum id (\<lambda>q. ())
     (construct_query fmt self k search_type embs full_text_rank_filter offset_limit
        projection_mapping with_embedding where_clause)
   = map_sum id (\<lambda>q. ())
       (construct_query fmt self k' search_type embs full_text_rank_filter offset_limit
          projection_mapping with_embedding where_clause)
   \<and> map_sum id snd
     (construct_query fmt self k search_type embs full_text_rank_filter offset_limit
        projection_mapping with_embedding where_clause)
   = map_sum id (\<lambda>q. if search_type = ''full_text_search'' \<or> search_type = ''vector''
                      then build_parameters self k search_type embs projection_mapping else [])
       (construct_query fmt self k' search_type embs full_text_rank_filter offset_limit
          projection_mapping with_embedding where_clause)
   \<and> hd (build_parameters self k search_type embs projection_mapping) = (''@limit'', PInt k)
   \<and> map_sum id limit
        (search_store_query strategy_attr embedding_length embedding k filters
           marginal_relevance)
      = map_sum id (\<lambda>q. k)
          (search_store_query strategy_attr embedding_length embedding k' filters
             marginal_relevance)"
  using construct_query_failure search_store_query_limit
  by (simp add: build_parameters_def)

theorem limit_is_not_validated_witness:
  "map_sum id snd
     (construct_query (\<lambda>embs. []) example_cosmos (- 3) ''full_text_search'' None None None None
        False None)
     = Inr [(''@limit'', PInt (- 3)), (''@textKey'', PStr ''text''),
            (''@metadataKey'', PStr ''metadata'')]
   \<and> map_sum id limit (search_store_query (Member COSINE) 1 [1] (- 3) PNone False) = Inr (- 3)"
proof -
  have q: "map_sum id (\<lambda>q. ())
     (construct_query (\<lambda>embs. []) example_cosmos 4 ''full_text_search'' None None None None
        False None) = Inr ()"
    by (simp add: construct_query_def generate_projection_fields_def add_ordering_def
        example_cosmos_def truthy_def Let_def)
  then obtain built where b: "construct_query (\<lambda>embs. []) example_cosmos 4 ''full_text_search''
      None None None None False None = Inr built"
    by (cases "construct_query (\<lambda>embs. []) example_cosmos 4 ''full_text_search''
      None None None None False None") auto
  have s: "map_sum id (\<lambda>q. - 3 :: int) (search_store_query (Member COSINE) 1 [1] 4 PNone False)
      = Inr (- 3)"
    by (simp add: search_store_query_def Let_def)
  from limit_is_not_validated
    [of "\<lambda>embs. []" example_cosmos "- 3" "''full_text_search''" None None None None False None 4
       "Member COSINE" 1 "[1]" PNone False] b s
  show ?thesis by (simp add: build_parameters_def example_cosmos_def truthy_def)
qed

text \<open>
  A vector search with \<open>k = 0\<close> is built like any other: the query is returned, with 0
  bound to \<open>@limit\<close>, and no error is raised.
\<close>

theorem zero_limit_counterexample:
  "construct_query (\<lambda>embs. []) example_cosmos 0 ''vector'' (Some [1]) None None None False None
     = Inr (''SELECT TOP @limit c.id, c[@textKey] as text, c[@metadataKey] as metadata, ''
              @ ''VectorDistance(c[@embeddingKey], @embeddings) as SimilarityScore FROM c ''
              @ '' ORDER BY VectorDistance(c[@embeddingKey], @embeddings)'',
            [(''@limit'', PInt 0), (''@textKey'', PStr ''text''),
             (''@metadataKey'', PStr ''metadata''), (''@embeddingKey'', PStr ''embedding''),
             (''@embeddings'', PList [PFloat 1])])"
  by (simp add: construct_query_def generate_projection_fields_def build_parameters_def
      add_ordering_def example_cosmos_def truthy_def Let_def)

section \<open>Properties of ingest\<close>












end
